theory Spec2Isabelle
  imports Main
begin

section \<open>The CQRS dispatch engine of \<^verbatim>\<open>src/core/cqrs/bus.ts\<close>\<close>

subsection \<open>Values\<close>

text \<open>
  A request (command or query) is an object; the buses only read its
  \<^verbatim>\<open>constructor\<close>, the class it was built with. A class is a function object:
  the handler map compares it by reference (here \<open>ctor_id\<close>) and the error
  message prints its \<^verbatim>\<open>name\<close>. Two classes may carry the same name.
\<close>

datatype ctor = Ctor (ctor_id: nat) (ctor_name: string)

record 'p request =
  constructor :: ctor
  payload :: 'p

text \<open>A handler token is a JavaScript \<^verbatim>\<open>symbol\<close>: an opaque identity, always truthy.\<close>

datatype symbol = Symbol nat

text \<open>
  Modelled from the spec: the class \<^verbatim>\<open>HttpError\<close> of \<^verbatim>\<open>../errors/http.error\<close> is
  imported by the bus and built as \<^verbatim>\<open>new HttpError(code, title, detail)\<close>; the
  spec gives its shape as \<^verbatim>\<open>{ code: number, title: string, detail: string }\<close>.
\<close>

record http_error =
  code :: int
  title :: string
  detail :: string

text \<open>
  Modelled from the spec: \<^verbatim>\<open>Result\<close> of \<^verbatim>\<open>../base/result\<close>, a tagged union of
  exactly one of \<^verbatim>\<open>Success(value)\<close> or \<^verbatim>\<open>Failure(error)\<close>, built by the static
  factories \<^verbatim>\<open>Result.Success\<close> and \<^verbatim>\<open>Result.Failure\<close>.
\<close>

datatype 'a result = Success 'a | Failure http_error

text \<open>
  JavaScript throws any value. The \<^verbatim>\<open>catch\<close> blocks tell three kinds apart:
  an \<^verbatim>\<open>HttpError\<close> (tested first), another \<^verbatim>\<open>Error\<close> instance (of which only
  \<^verbatim>\<open>message\<close> is read), and a value that is no \<^verbatim>\<open>Error\<close> at all.
\<close>

datatype js_value =
  JsUndefined
  | JsNull
  | JsString string
  | JsObject "(string \<times> string) list"

datatype thrown =
  ThrownHttpError http_error
  | ThrownError string
  | ThrownValue js_value

subsection \<open>Collaborators\<close>

text \<open>
  \<^verbatim>\<open>IUnitOfWork\<close> (\<^verbatim>\<open>src/adapters/mysql/unit-of-work.interface.ts\<close>): each
  operation returns a promise of \<^verbatim>\<open>void\<close>, which resolves (\<open>None\<close>) or rejects
  with a thrown value. \<^verbatim>\<open>getConnection\<close> is never called by the buses.
\<close>

record uow =
  beginTransaction :: "thrown option"
  commit :: "thrown option"
  rollback :: "thrown option"

text \<open>
  \<^verbatim>\<open>ICommandHandler\<close> and \<^verbatim>\<open>IQueryHandler\<close>: one method \<^verbatim>\<open>handle\<close>, whose promise
  resolves with a value or rejects.
\<close>

type_synonym ('q, 'r) handler = "'q \<Rightarrow> thrown + 'r"

text \<open>
  \<^verbatim>\<open>Container\<close> (\<^verbatim>\<open>../di/container\<close>) and \<^verbatim>\<open>TOKENS\<close> (\<^verbatim>\<open>../di/tokens\<close>) are not
  part of the reviewed sources, so the container is a parameter of the buses:
  what \<^verbatim>\<open>Container.get(TOKENS.UnitOfWork)\<close> and \<^verbatim>\<open>Container.get(handlerToken)\<close>
  do, at the types the bus casts them to. Either lookup may throw.
\<close>

record ('q, 'r) container =
  get_UnitOfWork :: "thrown + uow"
  get_handler :: "symbol \<Rightarrow> thrown + ('q, 'r) handler"

subsection \<open>Calls on collaborators, and the control flow of an \<^verbatim>\<open>async\<close> function\<close>

datatype call =
  ContainerGetUnitOfWork
  | ContainerGet symbol
  | BeginTransaction
  | Handle
  | Commit
  | Rollback

text \<open>
  A computation takes the calls made so far and returns them extended, with
  its outcome: \<open>Inl\<close> a thrown value (the promise rejects), \<open>Inr\<close> a value.
\<close>

type_synonym 'a io = "call list \<Rightarrow> call list \<times> (thrown + 'a)"

definition io_return :: "'a \<Rightarrow> 'a io" where
  "io_return x = (\<lambda>log. (log, Inr x))"

definition io_call :: "call \<Rightarrow> thrown + 'a \<Rightarrow> 'a io" where
  "io_call c outcome = (\<lambda>log. (log @ [c], outcome))"

definition io_bind :: "'a io \<Rightarrow> ('a \<Rightarrow> 'b io) \<Rightarrow> 'b io" where
  "io_bind m f =
     (\<lambda>log. case m log of
        (log', Inl error) \<Rightarrow> (log', Inl error)
      | (log', Inr x) \<Rightarrow> f x log')"

definition io_try :: "'a io \<Rightarrow> (thrown \<Rightarrow> 'a io) \<Rightarrow> 'a io" where
  "io_try body handler =
     (\<lambda>log. case body log of
        (log', Inl error) \<Rightarrow> handler error log'
      | (log', Inr x) \<Rightarrow> (log', Inr x))"

definition await_void :: "call \<Rightarrow> thrown option \<Rightarrow> unit io" where
  "await_void c p = io_call c (case p of None \<Rightarrow> Inr () | Some error \<Rightarrow> Inl error)"

definition run :: "'a io \<Rightarrow> call list \<times> (thrown + 'a)" where
  "run m = m []"

definition calls :: "'a io \<Rightarrow> call list" where
  "calls m = fst (run m)"

definition outcome :: "'a io \<Rightarrow> thrown + 'a" where
  "outcome m = snd (run m)"

subsection \<open>The handler map\<close>

type_synonym HandlerMap = "ctor \<rightharpoonup> symbol"

text \<open>
  \<^verbatim>\<open>new Map(mappings)\<close> starts from the empty map and calls \<^verbatim>\<open>set(key, value)\<close>
  for each pair of the array, in order.
\<close>

definition createHandlerMap :: "(ctor \<times> symbol) list \<Rightarrow> HandlerMap" where
  "createHandlerMap mappings = foldl (\<lambda>m (k, v). m(k \<mapsto> v)) Map.empty mappings"

subsection \<open>\<^verbatim>\<open>CommandBus.execute\<close>\<close>

text \<open>The \<^verbatim>\<open>try\<close> block (lines 44 to 51).\<close>

definition CommandBus_try ::
  "('p request, 'r) container \<Rightarrow> uow \<Rightarrow> symbol \<Rightarrow> 'p request \<Rightarrow> 'r result io" where
  "CommandBus_try C uow handlerToken command =
     io_bind (await_void BeginTransaction (beginTransaction uow)) (\<lambda>_.
     io_bind (io_call (ContainerGet handlerToken) (get_handler C handlerToken)) (\<lambda>handler.
     io_bind (io_call Handle (handler command)) (\<lambda>value.
     io_bind (await_void Commit (commit uow)) (\<lambda>_.
     io_return (Success value)))))"

text \<open>The \<^verbatim>\<open>catch\<close> block (lines 53 to 59).\<close>

definition CommandBus_catch :: "uow \<Rightarrow> thrown \<Rightarrow> 'r result io" where
  "CommandBus_catch uow error =
     io_bind (await_void Rollback (rollback uow)) (\<lambda>_.
     (case error of
        ThrownHttpError e \<Rightarrow> io_return (Failure e)
      | _ \<Rightarrow>
        io_return (Failure \<lparr>code = 500, title = ''Internal Server Error'',
          detail = (case error of
              ThrownError message \<Rightarrow> message
            | _ \<Rightarrow> ''An unknown command execution error occurred.'')\<rparr>)))"

definition CommandBus_execute ::
  "HandlerMap \<Rightarrow> ('p request, 'r) container \<Rightarrow> 'p request \<Rightarrow> 'r result io" where
  "CommandBus_execute handlerMap C command =
     (case handlerMap (constructor command) of
        None \<Rightarrow>
          io_return (Failure \<lparr>code = 500, title = ''Internal Server Error'',
            detail = ''No command handler found for '' @ ctor_name (constructor command)\<rparr>)
      | Some handlerToken \<Rightarrow>
          io_bind (io_call ContainerGetUnitOfWork (get_UnitOfWork C)) (\<lambda>uow.
          io_try (CommandBus_try C uow handlerToken command) (CommandBus_catch uow)))"

subsection \<open>\<^verbatim>\<open>QueryBus.execute\<close>\<close>

text \<open>The \<^verbatim>\<open>try\<close> block (lines 87 to 89) and the \<^verbatim>\<open>catch\<close> block (lines 91 to 95).\<close>

definition QueryBus_try ::
  "('p request, 'r) container \<Rightarrow> symbol \<Rightarrow> 'p request \<Rightarrow> 'r result io" where
  "QueryBus_try C handlerToken query =
     io_bind (io_call (ContainerGet handlerToken) (get_handler C handlerToken)) (\<lambda>handler.
     io_bind (io_call Handle (handler query)) (\<lambda>value.
     io_return (Success value)))"

definition QueryBus_catch :: "thrown \<Rightarrow> 'r result io" where
  "QueryBus_catch error =
     (case error of
        ThrownHttpError e \<Rightarrow> io_return (Failure e)
      | _ \<Rightarrow>
        io_return (Failure \<lparr>code = 500, title = ''Internal Server Error'',
          detail = (case error of
              ThrownError message \<Rightarrow> message
            | _ \<Rightarrow> ''An unknown query execution error occurred.'')\<rparr>))"

definition QueryBus_execute ::
  "HandlerMap \<Rightarrow> ('p request, 'r) container \<Rightarrow> 'p request \<Rightarrow> 'r result io" where
  "QueryBus_execute handlerMap C query =
     (case handlerMap (constructor query) of
        None \<Rightarrow>
          io_return (Failure \<lparr>code = 500, title = ''Internal Server Error'',
            detail = ''No query handler found for '' @ ctor_name (constructor query)\<rparr>)
      | Some handlerToken \<Rightarrow>
          io_try (QueryBus_try C handlerToken query) QueryBus_catch)"

subsection \<open>The classification rule, as the specification words it\<close>

text \<open>
  An error that already carries a classification passes unchanged; any other
  failure becomes a generic \<^verbatim>\<open>500 / Internal Server Error\<close> whose detail is the
  message of an \<^verbatim>\<open>Error\<close>, or the fallback text of the bus.
\<close>

definition classification_rule :: "string \<Rightarrow> thrown \<Rightarrow> http_error" where
  "classification_rule fallback error =
     (case error of
        ThrownHttpError e \<Rightarrow> e
      | ThrownError message \<Rightarrow>
          \<lparr>code = 500, title = ''Internal Server Error'', detail = message\<rparr>
      | ThrownValue v \<Rightarrow>
          \<lparr>code = 500, title = ''Internal Server Error'', detail = fallback\<rparr>)"

definition command_fallback :: string where
  "command_fallback = ''An unknown command execution error occurred.''"

definition query_fallback :: string where
  "query_fallback = ''An unknown query execution error occurred.''"

text \<open>Example collaborators used to run the buses on concrete inputs.\<close>

definition CreateUser :: ctor where
  "CreateUser = Ctor 1 ''CreateUser''"

definition GetUser :: ctor where
  "GetUser = Ctor 2 ''GetUser''"

definition ListUsers :: ctor where
  "ListUsers = Ctor 3 ''ListUsers''"

definition CreateUserHandler :: symbol where
  "CreateUserHandler = Symbol 1"

definition ListUsersHandler :: symbol where
  "ListUsersHandler = Symbol 2"

definition example_map :: HandlerMap where
  "example_map =
     createHandlerMap [(CreateUser, CreateUserHandler), (ListUsers, ListUsersHandler)]"

definition example_request :: "ctor \<Rightarrow> unit request" where
  "example_request c = \<lparr>constructor = c, payload = ()\<rparr>"

definition example_container ::
  "thrown + uow \<Rightarrow> thrown + int \<Rightarrow> (unit request, int) container" where
  "example_container u r =
     \<lparr>get_UnitOfWork = u,
      get_handler = (\<lambda>t. if t = CreateUserHandler \<or> t = ListUsersHandler then Inr (\<lambda>_. r)
        else Inl (ThrownError ''No binding found''))\<rparr>"

definition example_uow :: "thrown option \<Rightarrow> thrown option \<Rightarrow> thrown option \<Rightarrow> uow" where
  "example_uow b c r = \<lparr>beginTransaction = b, commit = c, rollback = r\<rparr>"

section \<open>Running the buses\<close>

lemmas io_defs = io_return_def io_call_def io_bind_def io_try_def await_void_def
  run_def calls_def outcome_def

lemmas example_defs = CreateUser_def GetUser_def ListUsers_def CreateUserHandler_def
  ListUsersHandler_def example_map_def example_request_def example_container_def
  example_uow_def createHandlerMap_def

text \<open>
  The \<^verbatim>\<open>catch\<close> block of the command bus always calls \<^verbatim>\<open>rollback\<close> first; when
  \<^verbatim>\<open>rollback\<close> throws, that error replaces the one being handled.
\<close>

lemma CommandBus_catch_run:
  "CommandBus_catch uow error log =
     (log @ [Rollback],
      case rollback uow of
        Some error' \<Rightarrow> Inl error'
      | None \<Rightarrow> Inr (Failure (classification_rule command_fallback error)))"
  by (simp add: CommandBus_catch_def io_defs classification_rule_def command_fallback_def
      split: option.split thrown.split)

lemma QueryBus_catch_run:
  "QueryBus_catch error log = (log, Inr (Failure (classification_rule query_fallback error)))"
  by (simp add: QueryBus_catch_def io_defs classification_rule_def query_fallback_def
      split: thrown.split)

text \<open>The \<^verbatim>\<open>try\<close> blocks stop at the first call that throws.\<close>

lemma CommandBus_try_run:
  "CommandBus_try C uow handlerToken command log =
     (case beginTransaction uow of
        Some error \<Rightarrow> (log @ [BeginTransaction], Inl error)
      | None \<Rightarrow>
        (case get_handler C handlerToken of
           Inl error \<Rightarrow> (log @ [BeginTransaction, ContainerGet handlerToken], Inl error)
         | Inr handler \<Rightarrow>
           (case handler command of
              Inl error \<Rightarrow>
                (log @ [BeginTransaction, ContainerGet handlerToken, Handle], Inl error)
            | Inr value \<Rightarrow>
              (case commit uow of
                 Some error \<Rightarrow>
                   (log @ [BeginTransaction, ContainerGet handlerToken, Handle, Commit],
                    Inl error)
               | None \<Rightarrow>
                   (log @ [BeginTransaction, ContainerGet handlerToken, Handle, Commit],
                    Inr (Success value))))))"
  by (simp add: CommandBus_try_def io_defs split: option.split sum.split)

lemma QueryBus_try_run:
  "QueryBus_try C handlerToken query log =
     (case get_handler C handlerToken of
        Inl error \<Rightarrow> (log @ [ContainerGet handlerToken], Inl error)
      | Inr handler \<Rightarrow>
        (case handler query of
           Inl error \<Rightarrow> (log @ [ContainerGet handlerToken, Handle], Inl error)
         | Inr value \<Rightarrow> (log @ [ContainerGet handlerToken, Handle], Inr (Success value))))"
  by (simp add: QueryBus_try_def io_defs split: sum.split)

lemmas run_simps = CommandBus_execute_def QueryBus_execute_def CommandBus_try_run
  CommandBus_catch_run QueryBus_try_run QueryBus_catch_run
  io_return_def io_call_def io_bind_def io_try_def run_def calls_def outcome_def

text \<open>
  The query bus always resolves with a \<^verbatim>\<open>Result\<close>. The command bus resolves with a
  \<^verbatim>\<open>Result\<close> whenever the Unit of Work is obtained and \<^verbatim>\<open>rollback\<close> does not throw;
  when it rejects, the error is the container's or the one thrown by \<^verbatim>\<open>rollback\<close>.
\<close>

lemma QueryBus_execute_resolves:
  "\<exists>r. outcome (QueryBus_execute handlerMap C query) = Inr r"
  by (simp add: run_simps split: option.split sum.split)

lemma CommandBus_execute_resolves:
  assumes "get_UnitOfWork C = Inr uow" and "rollback uow = None"
  shows "\<exists>r. outcome (CommandBus_execute handlerMap C command) = Inr r"
  using assms by (simp add: run_simps split: option.split sum.split)

lemma CommandBus_execute_rejects:
  assumes "outcome (CommandBus_execute handlerMap C command) = Inl error"
  shows "get_UnitOfWork C = Inl error \<or>
    (\<exists>uow. get_UnitOfWork C = Inr uow \<and> rollback uow = Some error \<and>
       Rollback \<in> set (calls (CommandBus_execute handlerMap C command)))"
  using assms by (auto simp: run_simps split: option.splits sum.splits)

text \<open>
  No collaborator operation is called twice within one \<^verbatim>\<open>execute\<close>, which is why one
  outcome per operation (the fields of \<open>uow\<close> and \<open>container\<close>) describes any
  collaborator, whatever state it keeps between calls.
\<close>

lemma CommandBus_execute_calls_distinct:
  "distinct (calls (CommandBus_execute handlerMap C command))"
  by (simp add: run_simps split: option.split sum.split)

lemma QueryBus_execute_calls_distinct:
  "distinct (calls (QueryBus_execute handlerMap C query))"
  by (simp add: run_simps split: option.split sum.split)

text \<open>The map built from a list of pairs looks a key up from the end of the list.\<close>

lemma foldl_set_map_of:
  "foldl (\<lambda>m (k, v). m(k \<mapsto> v)) m ms = m ++ map_of (rev ms)"
  by (induction ms arbitrary: m) (auto simp: map_add_def fun_eq_iff split: option.splits)

lemma createHandlerMap_map_of: "createHandlerMap ms = map_of (rev ms)"
  by (simp add: createHandlerMap_def foldl_set_map_of)

lemma dom_createHandlerMap: "dom (createHandlerMap ms) = fst ` set ms"
  by (simp add: createHandlerMap_map_of dom_map_of_conv_image_fst)

text \<open>Every registered type has a last pair in the list.\<close>

lemma registered_type_last_pair:
  assumes "k \<in> fst ` set ms"
  shows "\<exists>xs t ys. ms = xs @ (k, t) # ys \<and> k \<notin> fst ` set ys"
proof -
  from assms have "\<exists>p \<in> set ms. fst p = k" by auto
  from split_list_last_prop [OF this]
  obtain xs p ys where "ms = xs @ p # ys" "fst p = k" "\<forall>q \<in> set ys. fst q \<noteq> k"
    by blast
  then have "ms = xs @ (k, snd p) # ys \<and> k \<notin> fst ` set ys" by auto
  then show ?thesis by blast
qed

text \<open>
  Scenario B of the specification: the handler throws a plain error with the message
  \<^verbatim>\<open>db down\<close>; rollback is called once, commit never. Scenario D: the handler throws
  an error classified \<^verbatim>\<open>(404, Not Found, user missing)\<close>, returned unchanged.
\<close>

lemma scenario_B:
  "run (CommandBus_execute example_map
      (example_container (Inr (example_uow None None None)) (Inl (ThrownError ''db down'')))
      (example_request CreateUser)) =
    ([ContainerGetUnitOfWork, BeginTransaction, ContainerGet CreateUserHandler, Handle, Rollback],
     Inr (Failure \<lparr>code = 500, title = ''Internal Server Error'', detail = ''db down''\<rparr>))"
  by (simp add: example_defs run_simps classification_rule_def)

lemma scenario_D:
  "run (CommandBus_execute example_map
      (example_container (Inr (example_uow None None None))
         (Inl (ThrownHttpError \<lparr>code = 404, title = ''Not Found'', detail = ''user missing''\<rparr>)))
      (example_request CreateUser)) =
    ([ContainerGetUnitOfWork, BeginTransaction, ContainerGet CreateUserHandler, Handle, Rollback],
     Inr (Failure \<lparr>code = 404, title = ''Not Found'', detail = ''user missing''\<rparr>))"
  by (simp add: example_defs run_simps classification_rule_def)

section \<open>The claims of the specification\<close>

subsection \<open>Unregistered request types\<close>

text \<open>
  Claim C4. For a command or query whose class has no entry in the handler map,
  \<^verbatim>\<open>execute\<close> returns a Failure with code 500, title \<^verbatim>\<open>Internal Server Error\<close> and
  the detail \<^verbatim>\<open>No command handler found for <name>\<close> (command bus) or
  \<^verbatim>\<open>No query handler found for <name>\<close> (query bus), \<^verbatim>\<open><name>\<close> being the name of
  that class; no call is made on the container, the Unit of Work or a handler, so no
  transaction is opened.
\<close>

theorem C4_unregistered_type_failure:
  assumes "handlerMap (constructor request) = None"
  shows "run (CommandBus_execute handlerMap C request) =
      ([], Inr (Failure \<lparr>code = 500, title = ''Internal Server Error'',
         detail = ''No command handler found for '' @ ctor_name (constructor request)\<rparr>)) \<and>
    run (QueryBus_execute handlerMap C' request) =
      ([], Inr (Failure \<lparr>code = 500, title = ''Internal Server Error'',
         detail = ''No query handler found for '' @ ctor_name (constructor request)\<rparr>))"
  using assms by (simp add: run_simps)

text \<open>Scenario C of the specification: no handler is registered for \<^verbatim>\<open>GetUser\<close>.\<close>

theorem C4_unregistered_type_failure_witness:
  "example_map (constructor (example_request GetUser)) = None \<and>
   run (CommandBus_execute example_map
      (example_container (Inr (example_uow None None None)) (Inr 7))
      (example_request GetUser)) =
     ([], Inr (Failure \<lparr>code = 500, title = ''Internal Server Error'',
        detail = ''No command handler found for GetUser''\<rparr>)) \<and>
   run (QueryBus_execute example_map
      (example_container (Inr (example_uow None None None)) (Inr 7))
      (example_request GetUser)) =
     ([], Inr (Failure \<lparr>code = 500, title = ''Internal Server Error'',
        detail = ''No query handler found for GetUser''\<rparr>))"
  using C4_unregistered_type_failure [of example_map "example_request GetUser"
      "example_container (Inr (example_uow None None None)) (Inr 7)"
      "example_container (Inr (example_uow None None None)) (Inr 7)"]
  by (simp add: example_defs)

subsection \<open>The successful command\<close>

text \<open>
  Claim C6. For a command whose class is registered, when the Unit of Work is
  obtained, \<^verbatim>\<open>beginTransaction\<close> succeeds, the handler is resolved, it returns
  \<open>value\<close> and \<^verbatim>\<open>commit\<close> succeeds, \<^verbatim>\<open>execute\<close> returns \<^verbatim>\<open>Success(value)\<close>;
  \<^verbatim>\<open>beginTransaction\<close> and \<^verbatim>\<open>commit\<close> are each called exactly once and
  \<^verbatim>\<open>rollback\<close> is never called.
\<close>

theorem C6_success_commits_once:
  assumes "handlerMap (constructor command) = Some handlerToken"
    and "get_UnitOfWork C = Inr uow"
    and "beginTransaction uow = None"
    and "get_handler C handlerToken = Inr handler"
    and "handler command = Inr value"
    and "commit uow = None"
  shows "outcome (CommandBus_execute handlerMap C command) = Inr (Success value) \<and>
    calls (CommandBus_execute handlerMap C command) =
      [ContainerGetUnitOfWork, BeginTransaction, ContainerGet handlerToken, Handle, Commit] \<and>
    count_list (calls (CommandBus_execute handlerMap C command)) BeginTransaction = 1 \<and>
    count_list (calls (CommandBus_execute handlerMap C command)) Commit = 1 \<and>
    count_list (calls (CommandBus_execute handlerMap C command)) Rollback = 0"
  using assms by (simp add: run_simps)

text \<open>
  Scenario A of the specification: \<^verbatim>\<open>CreateUser\<close> is registered and its handler
  returns 42.
\<close>

theorem C6_success_commits_once_witness:
  "example_map (constructor (example_request CreateUser)) = Some CreateUserHandler \<and>
   outcome (CommandBus_execute example_map
      (example_container (Inr (example_uow None None None)) (Inr 42))
      (example_request CreateUser)) = Inr (Success 42) \<and>
   count_list (calls (CommandBus_execute example_map
      (example_container (Inr (example_uow None None None)) (Inr 42))
      (example_request CreateUser))) BeginTransaction = 1 \<and>
   count_list (calls (CommandBus_execute example_map
      (example_container (Inr (example_uow None None None)) (Inr 42))
      (example_request CreateUser))) Commit = 1 \<and>
   count_list (calls (CommandBus_execute example_map
      (example_container (Inr (example_uow None None None)) (Inr 42))
      (example_request CreateUser))) Rollback = 0"
  using C6_success_commits_once [of example_map "example_request CreateUser"
      CreateUserHandler "example_container (Inr (example_uow None None None)) (Inr 42)"
      "example_uow None None None" "\<lambda>_. Inr 42" 42]
  by (simp add: example_defs)

subsection \<open>Queries run outside any transaction\<close>

text \<open>
  Claim C7. \<^verbatim>\<open>QueryBus.execute\<close> never asks the container for the Unit of Work and
  never calls \<^verbatim>\<open>beginTransaction\<close>, \<^verbatim>\<open>commit\<close> or \<^verbatim>\<open>rollback\<close>, whatever the
  handler map, the container and the query are.
\<close>

theorem C7_query_no_transaction:
  "ContainerGetUnitOfWork \<notin> set (calls (QueryBus_execute handlerMap C query)) \<and>
   BeginTransaction \<notin> set (calls (QueryBus_execute handlerMap C query)) \<and>
   Commit \<notin> set (calls (QueryBus_execute handlerMap C query)) \<and>
   Rollback \<notin> set (calls (QueryBus_execute handlerMap C query))"
  by (simp add: run_simps split: option.split sum.split)

theorem C7_query_no_transaction_witness:
  "calls (QueryBus_execute example_map
      (example_container (Inr (example_uow None None None)) (Inr 7))
      (example_request ListUsers)) = [ContainerGet ListUsersHandler, Handle] \<and>
   Rollback \<notin> set (calls (QueryBus_execute example_map
      (example_container (Inr (example_uow None None None)) (Inr 7))
      (example_request ListUsers)))"
  using C7_query_no_transaction [of example_map
      "example_container (Inr (example_uow None None None)) (Inr 7)"
      "example_request ListUsers"]
  by (simp add: example_defs run_simps)

subsection \<open>Acquiring the Unit of Work\<close>

text \<open>
  Claim C9. For a command whose class is registered, the Unit of Work is looked up in
  the container before the \<^verbatim>\<open>try\<close> block is entered: when that lookup throws, the
  thrown value escapes \<^verbatim>\<open>execute\<close> (the promise rejects with it) instead of being
  returned as a Failure, and nothing else has been called.
\<close>

theorem C9_uow_lookup_failure_escapes:
  assumes "handlerMap (constructor command) = Some handlerToken"
    and "get_UnitOfWork C = Inl error"
  shows "run (CommandBus_execute handlerMap C command) = ([ContainerGetUnitOfWork], Inl error)"
  using assms by (simp add: run_simps)

theorem C9_uow_lookup_failure_escapes_witness:
  "example_map (constructor (example_request CreateUser)) = Some CreateUserHandler \<and>
   run (CommandBus_execute example_map
      (example_container (Inl (ThrownError ''No binding found for UnitOfWork'')) (Inr 42))
      (example_request CreateUser)) =
     ([ContainerGetUnitOfWork], Inl (ThrownError ''No binding found for UnitOfWork''))"
  using C9_uow_lookup_failure_escapes [of example_map "example_request CreateUser"
      CreateUserHandler
      "example_container (Inl (ThrownError ''No binding found for UnitOfWork'')) (Inr 42)"
      "ThrownError ''No binding found for UnitOfWork''"]
  by (simp add: example_defs)

subsection \<open>Commit and rollback within one command execution\<close>

text \<open>
  Claim C1, as stated, says that commit and rollback are never both called within one
  \<^verbatim>\<open>execute\<close> call. \<^verbatim>\<open>commit\<close> is awaited inside the \<^verbatim>\<open>try\<close> block, so when it
  throws, the \<^verbatim>\<open>catch\<close> block calls \<^verbatim>\<open>rollback\<close> as well: both are called once.
\<close>

theorem C1_commit_failure_calls_both:
  "calls (CommandBus_execute example_map
      (example_container
         (Inr (example_uow None (Some (ThrownError ''commit rejected'')) None)) (Inr 42))
      (example_request CreateUser)) =
     [ContainerGetUnitOfWork, BeginTransaction, ContainerGet CreateUserHandler, Handle,
      Commit, Rollback] \<and>
   count_list (calls (CommandBus_execute example_map
      (example_container
         (Inr (example_uow None (Some (ThrownError ''commit rejected'')) None)) (Inr 42))
      (example_request CreateUser))) Commit = 1 \<and>
   count_list (calls (CommandBus_execute example_map
      (example_container
         (Inr (example_uow None (Some (ThrownError ''commit rejected'')) None)) (Inr 42))
      (example_request CreateUser))) Rollback = 1"
  by (simp add: example_defs run_simps)

text \<open>
  Claim C1, amended. In a command execution in which \<^verbatim>\<open>beginTransaction\<close> is called,
  \<^verbatim>\<open>commit\<close> and \<^verbatim>\<open>rollback\<close> are each called at most once and at least one of
  them is called; both are called in the same \<^verbatim>\<open>execute\<close> call exactly when
  \<^verbatim>\<open>commit\<close> is called and fails, otherwise exactly one of them is. Neither is
  called when the registry lookup fails.
\<close>

theorem C1_commit_rollback_discipline:
  "(handlerMap (constructor command) = None \<longrightarrow>
      Commit \<notin> set (calls (CommandBus_execute handlerMap C command)) \<and>
      Rollback \<notin> set (calls (CommandBus_execute handlerMap C command))) \<and>
   (BeginTransaction \<in> set (calls (CommandBus_execute handlerMap C command)) \<longrightarrow>
      count_list (calls (CommandBus_execute handlerMap C command)) Commit \<le> 1 \<and>
      count_list (calls (CommandBus_execute handlerMap C command)) Rollback \<le> 1 \<and>
      (Commit \<in> set (calls (CommandBus_execute handlerMap C command)) \<or>
       Rollback \<in> set (calls (CommandBus_execute handlerMap C command))) \<and>
      ((Commit \<in> set (calls (CommandBus_execute handlerMap C command)) \<and>
        Rollback \<in> set (calls (CommandBus_execute handlerMap C command))) =
       (\<exists>uow error. get_UnitOfWork C = Inr uow \<and> commit uow = Some error \<and>
          Commit \<in> set (calls (CommandBus_execute handlerMap C command)))))"
  by (auto simp: run_simps split: option.splits sum.splits)

theorem C1_commit_rollback_discipline_witness:
  "example_map (constructor (example_request GetUser)) = None \<and>
   Commit \<notin> set (calls (CommandBus_execute example_map
      (example_container (Inr (example_uow None None None)) (Inr 42))
      (example_request GetUser))) \<and>
   Rollback \<notin> set (calls (CommandBus_execute example_map
      (example_container (Inr (example_uow None None None)) (Inr 42))
      (example_request GetUser))) \<and>
   BeginTransaction \<in> set (calls (CommandBus_execute example_map
      (example_container (Inr (example_uow None None None)) (Inl (ThrownError ''db down'')))
      (example_request CreateUser))) \<and>
   count_list (calls (CommandBus_execute example_map
      (example_container (Inr (example_uow None None None)) (Inl (ThrownError ''db down'')))
      (example_request CreateUser))) Commit \<le> 1 \<and>
   count_list (calls (CommandBus_execute example_map
      (example_container (Inr (example_uow None None None)) (Inl (ThrownError ''db down'')))
      (example_request CreateUser))) Rollback \<le> 1 \<and>
   Rollback \<in> set (calls (CommandBus_execute example_map
      (example_container (Inr (example_uow None None None)) (Inl (ThrownError ''db down'')))
      (example_request CreateUser)))"
  using C1_commit_rollback_discipline [of example_map "example_request GetUser"
      "example_container (Inr (example_uow None None None)) (Inr 42)"]
    C1_commit_rollback_discipline [of example_map "example_request CreateUser"
      "example_container (Inr (example_uow None None None)) (Inl (ThrownError ''db down''))"]
  by (simp add: example_defs run_simps)

subsection \<open>A failing \<^verbatim>\<open>beginTransaction\<close>\<close>

text \<open>
  Claim C2, as stated, says that the bus calls neither commit nor rollback when
  \<^verbatim>\<open>beginTransaction\<close> fails. \<^verbatim>\<open>beginTransaction\<close> is awaited inside the \<^verbatim>\<open>try\<close>
  block, so its failure reaches the \<^verbatim>\<open>catch\<close> block, which calls \<^verbatim>\<open>rollback\<close>.
\<close>

theorem C2_begin_failure_calls_rollback:
  "calls (CommandBus_execute example_map
      (example_container
         (Inr (example_uow (Some (ThrownError ''no connection'')) None None)) (Inr 42))
      (example_request CreateUser)) =
     [ContainerGetUnitOfWork, BeginTransaction, Rollback] \<and>
   Rollback \<in> set (calls (CommandBus_execute example_map
      (example_container
         (Inr (example_uow (Some (ThrownError ''no connection'')) None None)) (Inr 42))
      (example_request CreateUser)))"
  by (simp add: example_defs run_simps)

text \<open>
  Claim C2, amended. If \<^verbatim>\<open>beginTransaction\<close> fails during a command execution, no
  handler is resolved or invoked and \<^verbatim>\<open>commit\<close> is not called; the bus calls
  \<^verbatim>\<open>rollback\<close> exactly once, and when that call completes the failure of
  \<^verbatim>\<open>beginTransaction\<close> is returned to the caller as a Failure: unchanged if it is
  an \<^verbatim>\<open>HttpError\<close>, as \<^verbatim>\<open>500 / Internal Server Error\<close> otherwise.
\<close>

theorem C2_begin_failure:
  assumes "handlerMap (constructor command) = Some handlerToken"
    and "get_UnitOfWork C = Inr uow"
    and "beginTransaction uow = Some error"
  shows "calls (CommandBus_execute handlerMap C command) =
      [ContainerGetUnitOfWork, BeginTransaction, Rollback] \<and>
    Handle \<notin> set (calls (CommandBus_execute handlerMap C command)) \<and>
    Commit \<notin> set (calls (CommandBus_execute handlerMap C command)) \<and>
    count_list (calls (CommandBus_execute handlerMap C command)) Rollback = 1 \<and>
    (rollback uow = None \<longrightarrow>
       outcome (CommandBus_execute handlerMap C command) =
         Inr (Failure (classification_rule command_fallback error)))"
  using assms by (simp add: run_simps split: option.split)

theorem C2_begin_failure_witness:
  "example_map (constructor (example_request CreateUser)) = Some CreateUserHandler \<and>
   run (CommandBus_execute example_map
      (example_container
         (Inr (example_uow (Some (ThrownError ''no connection'')) None None)) (Inr 42))
      (example_request CreateUser)) =
     ([ContainerGetUnitOfWork, BeginTransaction, Rollback],
      Inr (Failure \<lparr>code = 500, title = ''Internal Server Error'',
        detail = ''no connection''\<rparr>))"
  using C2_begin_failure [of example_map "example_request CreateUser" CreateUserHandler
      "example_container
         (Inr (example_uow (Some (ThrownError ''no connection'')) None None)) (Inr 42)"
      "example_uow (Some (ThrownError ''no connection'')) None None"
      "ThrownError ''no connection''"]
  by (simp add: example_defs run_simps classification_rule_def)

subsection \<open>A failing \<^verbatim>\<open>rollback\<close>\<close>

text \<open>
  Claim C3 says that \<^verbatim>\<open>execute\<close> on either bus returns a Result for every failure of
  handler resolution, of the handler, of commit or of rollback, and never raises to
  the caller. The command bus awaits \<^verbatim>\<open>rollback\<close> unguarded inside its \<^verbatim>\<open>catch\<close>
  block: here the handler throws \<^verbatim>\<open>db down\<close>, then \<^verbatim>\<open>rollback\<close> throws
  \<^verbatim>\<open>connection lost\<close>, and \<^verbatim>\<open>execute\<close> rejects with the rollback error; no Result
  is returned and the handler's error is lost.
\<close>

theorem C3_rollback_failure_escapes:
  "run (CommandBus_execute example_map
      (example_container
         (Inr (example_uow None None (Some (ThrownError ''connection lost''))))
         (Inl (ThrownError ''db down'')))
      (example_request CreateUser)) =
    ([ContainerGetUnitOfWork, BeginTransaction, ContainerGet CreateUserHandler, Handle,
      Rollback],
     Inl (ThrownError ''connection lost''))"
  by (simp add: example_defs run_simps)

subsection \<open>Classification of caught failures\<close>

text \<open>
  Claim C5, as stated, says that every failure without an explicit classification is
  wrapped with its original message as detail. Only the message of an \<^verbatim>\<open>Error\<close>
  instance is kept: here the handler throws the plain object
  \<^verbatim>\<open>{ message: 'db down' }\<close>, and the detail returned is the fallback text.
\<close>

theorem C5_message_of_non_Error_dropped:
  "outcome (CommandBus_execute example_map
      (example_container (Inr (example_uow None None None))
         (Inl (ThrownValue (JsObject [(''message'', ''db down'')]))))
      (example_request CreateUser)) =
     Inr (Failure \<lparr>code = 500, title = ''Internal Server Error'',
       detail = ''An unknown command execution error occurred.''\<rparr>) \<and>
   outcome (CommandBus_execute example_map
      (example_container (Inr (example_uow None None None))
         (Inl (ThrownValue (JsObject [(''message'', ''db down'')]))))
      (example_request CreateUser)) \<noteq>
     Inr (Failure \<lparr>code = 500, title = ''Internal Server Error'', detail = ''db down''\<rparr>)"
  by (simp add: example_defs run_simps classification_rule_def command_fallback_def)

text \<open>
  Claim C5, amended. For every failure thrown inside the \<^verbatim>\<open>try\<close> block (handler
  resolution, handler execution, and on the command bus \<^verbatim>\<open>beginTransaction\<close> and
  \<^verbatim>\<open>commit\<close>), both buses apply the same classification rule, up to the fallback
  text: an \<^verbatim>\<open>HttpError\<close> is returned unchanged as \<^verbatim>\<open>Failure(error)\<close>, an \<^verbatim>\<open>Error\<close>
  instance is wrapped as \<^verbatim>\<open>Failure(500, Internal Server Error, message)\<close>, and any
  other thrown value as \<^verbatim>\<open>Failure(500, Internal Server Error, fallback)\<close>. For
  commands this Failure is returned after \<^verbatim>\<open>rollback\<close> has been called, once and as
  the last call, and has completed.
\<close>

theorem C5_classification_rule:
  "(handlerMap (constructor query) = Some queryToken \<and>
    outcome (QueryBus_try Cq queryToken query) = Inl qerror \<longrightarrow>
      outcome (QueryBus_execute handlerMap Cq query) =
        Inr (Failure (classification_rule query_fallback qerror))) \<and>
   (handlerMap (constructor command) = Some handlerToken \<and>
    get_UnitOfWork C = Inr uow \<and>
    outcome (CommandBus_try C uow handlerToken command) = Inl error \<and>
    rollback uow = None \<longrightarrow>
      outcome (CommandBus_execute handlerMap C command) =
        Inr (Failure (classification_rule command_fallback error)) \<and>
      count_list (calls (CommandBus_execute handlerMap C command)) Rollback = 1 \<and>
      last (calls (CommandBus_execute handlerMap C command)) = Rollback)"
  by (auto simp: run_simps split: option.splits sum.splits)

theorem C5_classification_rule_witness:
  "example_map (constructor (example_request ListUsers)) = Some ListUsersHandler \<and>
   outcome (QueryBus_try
      (example_container (Inr (example_uow None None None)) (Inl (ThrownError ''db down'')))
      ListUsersHandler (example_request ListUsers)) = Inl (ThrownError ''db down'') \<and>
   outcome (QueryBus_execute example_map
      (example_container (Inr (example_uow None None None)) (Inl (ThrownError ''db down'')))
      (example_request ListUsers)) =
     Inr (Failure \<lparr>code = 500, title = ''Internal Server Error'', detail = ''db down''\<rparr>) \<and>
   example_map (constructor (example_request CreateUser)) = Some CreateUserHandler \<and>
   outcome (CommandBus_try
      (example_container (Inr (example_uow None None None))
         (Inl (ThrownHttpError \<lparr>code = 404, title = ''Not Found'', detail = ''user missing''\<rparr>)))
      (example_uow None None None) CreateUserHandler (example_request CreateUser)) =
     Inl (ThrownHttpError \<lparr>code = 404, title = ''Not Found'', detail = ''user missing''\<rparr>) \<and>
   outcome (CommandBus_execute example_map
      (example_container (Inr (example_uow None None None))
         (Inl (ThrownHttpError \<lparr>code = 404, title = ''Not Found'', detail = ''user missing''\<rparr>)))
      (example_request CreateUser)) =
     Inr (Failure \<lparr>code = 404, title = ''Not Found'', detail = ''user missing''\<rparr>) \<and>
   last (calls (CommandBus_execute example_map
      (example_container (Inr (example_uow None None None))
         (Inl (ThrownHttpError \<lparr>code = 404, title = ''Not Found'', detail = ''user missing''\<rparr>)))
      (example_request CreateUser))) = Rollback"
  using C5_classification_rule [where handlerMap = example_map
      and query = "example_request ListUsers" and queryToken = ListUsersHandler
      and Cq = "example_container (Inr (example_uow None None None))
         (Inl (ThrownError ''db down''))"
      and qerror = "ThrownError ''db down''"
      and command = "example_request CreateUser" and handlerToken = CreateUserHandler
      and C = "example_container (Inr (example_uow None None None))
         (Inl (ThrownHttpError \<lparr>code = 404, title = ''Not Found'', detail = ''user missing''\<rparr>))"
      and uow = "example_uow None None None"
      and error = "ThrownHttpError \<lparr>code = 404, title = ''Not Found'', detail = ''user missing''\<rparr>"]
  by (simp add: example_defs run_simps classification_rule_def)

text \<open>
  Claim C10, as stated, speaks of every value thrown during dispatch. The fallback
  only applies to what the \<^verbatim>\<open>catch\<close> block receives from the \<^verbatim>\<open>try\<close> block, and on
  the command bus only when \<^verbatim>\<open>rollback\<close> completes. A string thrown by
  \<^verbatim>\<open>Container.get(TOKENS.UnitOfWork)\<close>, which is called before the \<^verbatim>\<open>try\<close> block,
  is not discarded: \<^verbatim>\<open>execute\<close> rejects with it and returns no Failure. A string
  thrown by the handler is discarded, but when \<^verbatim>\<open>rollback\<close> then throws a string,
  that one escapes and again no Failure is returned.
\<close>

theorem C10_thrown_string_escapes:
  "run (CommandBus_execute example_map
      (example_container (Inl (ThrownValue (JsString ''boom''))) (Inr 42))
      (example_request CreateUser)) =
     ([ContainerGetUnitOfWork], Inl (ThrownValue (JsString ''boom''))) \<and>
   run (CommandBus_execute example_map
      (example_container
         (Inr (example_uow None None (Some (ThrownValue (JsString ''bang'')))))
         (Inl (ThrownValue (JsString ''boom''))))
      (example_request CreateUser)) =
     ([ContainerGetUnitOfWork, BeginTransaction, ContainerGet CreateUserHandler, Handle,
       Rollback],
      Inl (ThrownValue (JsString ''bang'')))"
  by (simp add: example_defs run_simps)

text \<open>
  Claim C10, amended. A value thrown inside the \<^verbatim>\<open>try\<close> block that is neither an
  \<^verbatim>\<open>HttpError\<close> nor an \<^verbatim>\<open>Error\<close> instance (a thrown string, say) is discarded: the
  Failure returned has code 500, title \<^verbatim>\<open>Internal Server Error\<close> and the fixed detail
  \<^verbatim>\<open>An unknown query execution error occurred.\<close> on the query bus,
  \<^verbatim>\<open>An unknown command execution error occurred.\<close> on the command bus. On the
  command bus that Failure is returned when \<^verbatim>\<open>rollback\<close> completes, and no other
  Result is returned in any case. An \<^verbatim>\<open>Error\<close> instance thrown inside the \<^verbatim>\<open>try\<close>
  block has its message kept as the detail.
\<close>

theorem C10_unknown_error_fallback:
  "(handlerMap (constructor query) = Some queryToken \<and>
    outcome (QueryBus_try Cq queryToken query) = Inl (ThrownValue qv) \<longrightarrow>
      outcome (QueryBus_execute handlerMap Cq query) =
        Inr (Failure \<lparr>code = 500, title = ''Internal Server Error'',
          detail = ''An unknown query execution error occurred.''\<rparr>)) \<and>
   (handlerMap (constructor query) = Some queryToken \<and>
    outcome (QueryBus_try Cq queryToken query) = Inl (ThrownError qmessage) \<longrightarrow>
      outcome (QueryBus_execute handlerMap Cq query) =
        Inr (Failure \<lparr>code = 500, title = ''Internal Server Error'', detail = qmessage\<rparr>)) \<and>
   (handlerMap (constructor command) = Some handlerToken \<and>
    get_UnitOfWork C = Inr uow \<and>
    outcome (CommandBus_try C uow handlerToken command) = Inl (ThrownValue v) \<longrightarrow>
      (rollback uow = None \<longrightarrow>
         outcome (CommandBus_execute handlerMap C command) =
           Inr (Failure \<lparr>code = 500, title = ''Internal Server Error'',
             detail = ''An unknown command execution error occurred.''\<rparr>)) \<and>
      (\<forall>r. outcome (CommandBus_execute handlerMap C command) = Inr r \<longrightarrow>
         r = Failure \<lparr>code = 500, title = ''Internal Server Error'',
             detail = ''An unknown command execution error occurred.''\<rparr>)) \<and>
   (handlerMap (constructor command) = Some handlerToken \<and>
    get_UnitOfWork C = Inr uow \<and>
    outcome (CommandBus_try C uow handlerToken command) = Inl (ThrownError message) \<and>
    rollback uow = None \<longrightarrow>
      outcome (CommandBus_execute handlerMap C command) =
        Inr (Failure \<lparr>code = 500, title = ''Internal Server Error'', detail = message\<rparr>))"
  by (auto simp: run_simps classification_rule_def command_fallback_def query_fallback_def
      split: option.splits sum.splits)

theorem C10_unknown_error_fallback_witness:
  "example_map (constructor (example_request ListUsers)) = Some ListUsersHandler \<and>
   outcome (QueryBus_try
      (example_container (Inr (example_uow None None None))
         (Inl (ThrownValue (JsString ''boom''))))
      ListUsersHandler (example_request ListUsers)) = Inl (ThrownValue (JsString ''boom'')) \<and>
   outcome (QueryBus_execute example_map
      (example_container (Inr (example_uow None None None))
         (Inl (ThrownValue (JsString ''boom''))))
      (example_request ListUsers)) =
     Inr (Failure \<lparr>code = 500, title = ''Internal Server Error'',
       detail = ''An unknown query execution error occurred.''\<rparr>) \<and>
   example_map (constructor (example_request CreateUser)) = Some CreateUserHandler \<and>
   outcome (CommandBus_try
      (example_container (Inr (example_uow None None None))
         (Inl (ThrownValue (JsString ''boom''))))
      (example_uow None None None) CreateUserHandler (example_request CreateUser)) =
     Inl (ThrownValue (JsString ''boom'')) \<and>
   outcome (CommandBus_execute example_map
      (example_container (Inr (example_uow None None None))
         (Inl (ThrownValue (JsString ''boom''))))
      (example_request CreateUser)) =
     Inr (Failure \<lparr>code = 500, title = ''Internal Server Error'',
       detail = ''An unknown command execution error occurred.''\<rparr>) \<and>
   outcome (QueryBus_try
      (example_container (Inr (example_uow None None None)) (Inl (ThrownError ''db down'')))
      ListUsersHandler (example_request ListUsers)) = Inl (ThrownError ''db down'') \<and>
   outcome (QueryBus_execute example_map
      (example_container (Inr (example_uow None None None)) (Inl (ThrownError ''db down'')))
      (example_request ListUsers)) =
     Inr (Failure \<lparr>code = 500, title = ''Internal Server Error'', detail = ''db down''\<rparr>) \<and>
   outcome (CommandBus_try
      (example_container (Inr (example_uow None None None)) (Inl (ThrownError ''db down'')))
      (example_uow None None None) CreateUserHandler (example_request CreateUser)) =
     Inl (ThrownError ''db down'') \<and>
   outcome (CommandBus_execute example_map
      (example_container (Inr (example_uow None None None)) (Inl (ThrownError ''db down'')))
      (example_request CreateUser)) =
     Inr (Failure \<lparr>code = 500, title = ''Internal Server Error'', detail = ''db down''\<rparr>)"
  using C10_unknown_error_fallback [where handlerMap = example_map
      and query = "example_request ListUsers" and queryToken = ListUsersHandler
      and Cq = "example_container (Inr (example_uow None None None))
         (Inl (ThrownError ''db down''))"
      and qmessage = "''db down''"
      and command = "example_request CreateUser" and handlerToken = CreateUserHandler
      and C = "example_container (Inr (example_uow None None None))
         (Inl (ThrownError ''db down''))"
      and uow = "example_uow None None None"
      and message = "''db down''"]
    C10_unknown_error_fallback [where handlerMap = example_map
      and query = "example_request ListUsers" and queryToken = ListUsersHandler
      and Cq = "example_container (Inr (example_uow None None None))
         (Inl (ThrownValue (JsString ''boom'')))"
      and qv = "JsString ''boom''"
      and command = "example_request CreateUser" and handlerToken = CreateUserHandler
      and C = "example_container (Inr (example_uow None None None))
         (Inl (ThrownValue (JsString ''boom'')))"
      and uow = "example_uow None None None"
      and v = "JsString ''boom''"]
  by (simp add: example_defs run_simps)

subsection \<open>Building the handler map\<close>

text \<open>
  Claim C8. For every ordered sequence of (request type, token) pairs, the map built
  by \<^verbatim>\<open>createHandlerMap\<close> has exactly the registered types as keys and maps each to
  exactly one token; a later pair for the same type overwrites an earlier one, so the
  token of the last pair for a type is the one the map holds.
\<close>

theorem C8_createHandlerMap_last_wins:
  assumes "k \<notin> fst ` set ys"
  shows "createHandlerMap (xs @ (k, t) # ys) k = Some t \<and>
    (\<exists>!t'. createHandlerMap (xs @ (k, t) # ys) k = Some t') \<and>
    dom (createHandlerMap (xs @ (k, t) # ys)) = fst ` set (xs @ (k, t) # ys)"
proof -
  from assms have "map_of (rev ys) k = None"
    by (simp add: map_of_eq_None_iff)
  then have "createHandlerMap (xs @ (k, t) # ys) k = Some t"
    by (simp add: createHandlerMap_map_of map_add_def)
  moreover have "dom (createHandlerMap (xs @ (k, t) # ys)) = fst ` set (xs @ (k, t) # ys)"
    by (rule dom_createHandlerMap)
  ultimately show ?thesis by simp
qed

theorem C8_createHandlerMap_last_wins_witness:
  "CreateUser \<notin> fst ` set [(ListUsers, ListUsersHandler)] \<and>
   createHandlerMap
     [(CreateUser, Symbol 7), (CreateUser, CreateUserHandler), (ListUsers, ListUsersHandler)]
     CreateUser = Some CreateUserHandler"
  using C8_createHandlerMap_last_wins [of CreateUser "[(ListUsers, ListUsersHandler)]"
      "[(CreateUser, Symbol 7)]" CreateUserHandler]
  by (simp add: CreateUser_def ListUsers_def)

end
